theory Spec2Isabelle
  imports Main "HOL-Library.AList"
begin

section \<open>JavaScript values, faults and effects\<close>

text \<open>
  The module \<^verbatim>\<open>examples/v10/lib/middleware.ts\<close> is TypeScript: its types are erased
  before it runs, so the embedding follows the JavaScript that remains. A value is a
  primitive, an object (its own enumerable properties, in insertion order) or a function.
  A function value is a handle; what a call of it answers is given by a table of
  behaviours that every operation below takes as a parameter. Numbers are restricted to
  the integers: the module does no arithmetic.
\<close>

datatype jsval =
    Undefined
  | Null
  | Bool bool
  | Num int
  | Str string
  | Obj "(string \<times> jsval) list"
  | Fun nat

text \<open>
  A fault is what a \<^verbatim>\<open>throw\<close> raises or what a promise rejects with:
  \<^verbatim>\<open>new Error(msg)\<close>, a \<^verbatim>\<open>TypeError\<close> of the language itself, or any other
  value thrown by a collaborator.
\<close>

datatype js_error =
    Error string
  | TypeError
  | Thrown jsval

text \<open>
  A call of an external function is an event. An operation yields its completion
  (\<open>Inl\<close> a fault, \<open>Inr\<close> the value returned or the value its promise resolves to)
  together with the calls it has made, in the order it made them.
\<close>

datatype event =
    SafeParseAsync jsval
  | NewContext jsval
  | Apply nat jsval

type_synonym 'a effect = "(js_error + 'a) \<times> event list"

type_synonym behaviours = "nat \<Rightarrow> jsval \<Rightarrow> js_error + jsval"

definition settle :: "js_error + 'a \<Rightarrow> 'a effect" where
  "settle c = (c, [])"

definition andThen :: "'a effect \<Rightarrow> ('a \<Rightarrow> 'b effect) \<Rightarrow> 'b effect" where
  "andThen m f =
     (case fst m of
        Inl e \<Rightarrow> (Inl e, snd m)
      | Inr v \<Rightarrow> (fst (f v), snd m @ snd (f v)))"

subsection \<open>Property access, truthiness, spread\<close>

text \<open>
  \<^verbatim>\<open>v.k\<close>: a \<^verbatim>\<open>TypeError\<close> on \<^verbatim>\<open>undefined\<close> and \<^verbatim>\<open>null\<close>, the property's value
  on an object, \<^verbatim>\<open>undefined\<close> where there is no such property. The keys the module
  reads (\<^verbatim>\<open>rawInput\<close>, \<^verbatim>\<open>success\<close>, \<^verbatim>\<open>error\<close>, \<^verbatim>\<open>next\<close>, \<^verbatim>\<open>ctx\<close>,
  \<^verbatim>\<open>user\<close>) are not built-in properties of strings, numbers, booleans or functions.
\<close>

fun get_prop :: "jsval \<Rightarrow> string \<Rightarrow> js_error + jsval" where
  "get_prop Undefined k = Inl TypeError"
| "get_prop Null k = Inl TypeError"
| "get_prop (Obj fs) k = Inr (case map_of fs k of Some v \<Rightarrow> v | None \<Rightarrow> Undefined)"
| "get_prop v k = Inr Undefined"

text \<open>\<^verbatim>\<open>k in v\<close>: a \<^verbatim>\<open>TypeError\<close> unless \<open>v\<close> is an object or a function.\<close>

fun has_prop :: "string \<Rightarrow> jsval \<Rightarrow> js_error + bool" where
  "has_prop k (Obj fs) = Inr (map_of fs k \<noteq> None)"
| "has_prop k (Fun h) = Inr False"
| "has_prop k v = Inl TypeError"

fun truthy :: "jsval \<Rightarrow> bool" where
  "truthy Undefined = False"
| "truthy Null = False"
| "truthy (Bool b) = b"
| "truthy (Num n) = (n \<noteq> 0)"
| "truthy (Str s) = (s \<noteq> [])"
| "truthy (Obj fs) = True"
| "truthy (Fun h) = True"

fun decimal :: "nat \<Rightarrow> string" where
  "decimal n =
     (if n < 10 then [char_of (48 + n)]
      else decimal (n div 10) @ [char_of (48 + n mod 10)])"

text \<open>
  \<^verbatim>\<open>{...v}\<close> copies the own enumerable properties of \<open>v\<close>: those of an object, the
  indexed characters of a string, none of anything else.
\<close>

fun own_props :: "jsval \<Rightarrow> (string \<times> jsval) list" where
  "own_props (Obj fs) = fs"
| "own_props (Str s) = zip (map decimal [0 ..< length s]) (map (\<lambda>c. Str [c]) s)"
| "own_props v = []"

text \<open>
  \<^verbatim>\<open>{..., k: v}\<close>: a key already there keeps its place and takes the new value, a new
  key goes to the end.
\<close>

definition set_prop :: "string \<Rightarrow> jsval \<Rightarrow> (string \<times> jsval) list \<Rightarrow> (string \<times> jsval) list" where
  "set_prop k v fs = AList.update k v fs"

text \<open>\<^verbatim>\<open>f(x)\<close>: a \<^verbatim>\<open>TypeError\<close> unless \<open>f\<close> is a function; the call is recorded.\<close>

fun call_fn :: "behaviours \<Rightarrow> jsval \<Rightarrow> jsval \<Rightarrow> jsval effect" where
  "call_fn fns (Fun h) x = (fns h x, [Apply h x])"
| "call_fn fns f x = (Inl TypeError, [])"

section \<open>The error code table\<close>

definition TRPC_ERROR_CODES_BY_KEY :: "(string \<times> int) list" where
  "TRPC_ERROR_CODES_BY_KEY =
     [(''PARSE_ERROR'', - 32700),
      (''BAD_REQUEST'', - 32600),
      (''INTERNAL_SERVER_ERROR'', - 32603),
      (''UNAUTHORIZED'', - 32001),
      (''FORBIDDEN'', - 32003),
      (''NOT_FOUND'', - 32004),
      (''METHOD_NOT_SUPPORTED'', - 32005),
      (''TIMEOUT'', - 32008),
      (''PRECONDITION_FAILED'', - 32012),
      (''PAYLOAD_TOO_LARGE'', - 32013),
      (''CLIENT_CLOSED_REQUEST'', - 32099)]"

section \<open>The chain builder\<close>

text \<open>
  \<^verbatim>\<open>function middlewares(...args: any): any { throw new Error('Unimplemented'); }\<close>
  The three overloads above it are declarations only. \<^verbatim>\<open>pipedResolver()\<close> returns
  this function.
\<close>

definition middlewares :: "jsval list \<Rightarrow> jsval effect" where
  "middlewares args = (Inl (Error ''Unimplemented''), [])"

definition pipedResolver :: "jsval list \<Rightarrow> jsval effect" where
  "pipedResolver = middlewares"

text \<open>
  The application's \<^verbatim>\<open>const procedure = pipe(...); procedure(params)\<close> with
  \<^verbatim>\<open>pipe = pipedResolver()\<close>: build the procedure from the stages and the resolver,
  then call what was built.
\<close>

definition procedure_call :: "behaviours \<Rightarrow> jsval list \<Rightarrow> jsval \<Rightarrow> jsval effect" where
  "procedure_call fns args params =
     andThen (pipedResolver args) (\<lambda>procedure. call_fn fns procedure params)"

section \<open>Reusable middlewares\<close>

subsection \<open>Validation\<close>

text \<open>
  \<^verbatim>\<open>zod(schema)\<close> returns the asynchronous function \<^verbatim>\<open>parser\<close>. The schema is the
  external validator: it is taken as what \<^verbatim>\<open>schema.safeParseAsync\<close> answers, a fault
  or a result object \<^verbatim>\<open>{success: true, data}\<close> or \<^verbatim>\<open>{success: false, error}\<close>.
\<close>

definition SafeParseSuccess :: "jsval \<Rightarrow> jsval" where
  "SafeParseSuccess d = Obj [(''success'', Bool True), (''data'', d)]"

definition SafeParseError :: "jsval \<Rightarrow> jsval" where
  "SafeParseError e = Obj [(''success'', Bool False), (''error'', e)]"

definition zod :: "(jsval \<Rightarrow> js_error + jsval) \<Rightarrow> behaviours \<Rightarrow> jsval \<Rightarrow> jsval effect" where
  "zod safeParseAsync fns params =
     andThen (settle (get_prop params ''rawInput'')) (\<lambda>rawInput.
     andThen (safeParseAsync rawInput, [SafeParseAsync rawInput]) (\<lambda>result.
     andThen (settle (get_prop result ''success'')) (\<lambda>success.
       if truthy success then
         andThen (settle (get_prop params ''next'')) (\<lambda>next.
           call_fn fns next
             (Obj (set_prop ''_input_out'' Null
                  (set_prop ''_input_in'' Null
                  (set_prop ''input'' result (own_props params))))))
       else
         andThen (settle (get_prop result ''error'')) (\<lambda>cause.
           settle (Inr (Obj [(''error'',
             Obj [(''code'', Str ''BAD_REQUEST''), (''cause'', cause)])]))))))"

subsection \<open>Context swap\<close>

text \<open>
  \<^verbatim>\<open>contextSwapper()(newContext)()\<close> is the middleware; \<open>newContext\<close> is the external
  context-derivation function.
\<close>

definition contextSwapper :: "(jsval \<Rightarrow> js_error + jsval) \<Rightarrow> behaviours \<Rightarrow> jsval \<Rightarrow> jsval effect" where
  "contextSwapper newContext fns params =
     andThen (newContext params, [NewContext params]) (\<lambda>result.
     andThen (settle (has_prop ''ctx'' result)) (\<lambda>has_ctx.
       if has_ctx then
         andThen (settle (get_prop params ''next'')) (\<lambda>next.
         andThen (settle (get_prop result ''ctx'')) (\<lambda>ctx.
           call_fn fns next (Obj (set_prop ''ctx'' ctx (own_props params)))))
       else settle (Inr result)))"

subsection \<open>The application's auth middleware\<close>

text \<open>The function given to \<^verbatim>\<open>swapContext\<close> at \<^verbatim>\<open>const isAuthed = swapContext(...)\<close>.\<close>

definition isAuthed_newContext :: "jsval \<Rightarrow> js_error + jsval" where
  "isAuthed_newContext params =
     (case get_prop params ''ctx'' of
        Inl e \<Rightarrow> Inl e
      | Inr ctx \<Rightarrow>
          (case get_prop ctx ''user'' of
             Inl e \<Rightarrow> Inl e
           | Inr user \<Rightarrow>
               if \<not> truthy user then
                 Inr (Obj [(''error'', Obj [(''code'', Str ''UNAUTHORIZED'')])])
               else
                 Inr (Obj [(''ctx'', Obj (set_prop ''user'' user (own_props ctx)))])))"

definition isAuthed :: "behaviours \<Rightarrow> jsval \<Rightarrow> jsval effect" where
  "isAuthed = contextSwapper isAuthed_newContext"


section \<open>Sample collaborators\<close>

text \<open>
  Concrete collaborators on which the properties below are exercised. \<open>hello_schema\<close>
  stands for the application's \<^verbatim>\<open>z.object({ hello: z.string() })\<close>: it accepts a
  value whose \<^verbatim>\<open>hello\<close> is a string and rejects every other value.
  \<open>ok_resolver\<close> answers every call as the application's first resolver does, with
  \<^verbatim>\<open>{ data: 'ok' }\<close>. \<open>throwing_schema\<close> is a validator that throws, and
  \<open>throwing_newContext\<close> a derivation function that throws.
\<close>

definition hello_schema :: "jsval \<Rightarrow> js_error + jsval" where
  "hello_schema raw =
     (case get_prop raw ''hello'' of
        Inr (Str s) \<Rightarrow> Inr (SafeParseSuccess (Obj [(''hello'', Str s)]))
      | _ \<Rightarrow> Inr (SafeParseError (Obj [(''name'', Str ''ZodError'')])))"

definition throwing_schema :: "jsval \<Rightarrow> js_error + jsval" where
  "throwing_schema raw = Inl (Error ''validator crashed'')"

definition ok_resolver :: behaviours where
  "ok_resolver h x = Inr (Obj [(''data'', Str ''ok'')])"

definition throwing_newContext :: "jsval \<Rightarrow> js_error + jsval" where
  "throwing_newContext params = Inl (Error ''no database'')"

text \<open>How many calls of functions a list of events holds.\<close>

fun is_Apply :: "event \<Rightarrow> bool" where
  "is_Apply (Apply h x) = True"
| "is_Apply ev = False"

definition total_executions :: "event list \<Rightarrow> nat" where
  "total_executions evs = length (filter is_Apply evs)"

section \<open>Properties\<close>

subsection \<open>Error codes\<close>

text \<open>
  C1. Every name of the error code table has the fixed numeric code: PARSE_ERROR -32700,
  BAD_REQUEST -32600, INTERNAL_SERVER_ERROR -32603, UNAUTHORIZED -32001, FORBIDDEN -32003,
  NOT_FOUND -32004, METHOD_NOT_SUPPORTED -32005, TIMEOUT -32008, PRECONDITION_FAILED
  -32012, PAYLOAD_TOO_LARGE -32013, CLIENT_CLOSED_REQUEST -32099. The names of the table
  are exactly these eleven, each once, and every code is negative.
\<close>

theorem error_code_table:
  "map_of TRPC_ERROR_CODES_BY_KEY ''PARSE_ERROR'' = Some (- 32700) \<and>
   map_of TRPC_ERROR_CODES_BY_KEY ''BAD_REQUEST'' = Some (- 32600) \<and>
   map_of TRPC_ERROR_CODES_BY_KEY ''INTERNAL_SERVER_ERROR'' = Some (- 32603) \<and>
   map_of TRPC_ERROR_CODES_BY_KEY ''UNAUTHORIZED'' = Some (- 32001) \<and>
   map_of TRPC_ERROR_CODES_BY_KEY ''FORBIDDEN'' = Some (- 32003) \<and>
   map_of TRPC_ERROR_CODES_BY_KEY ''NOT_FOUND'' = Some (- 32004) \<and>
   map_of TRPC_ERROR_CODES_BY_KEY ''METHOD_NOT_SUPPORTED'' = Some (- 32005) \<and>
   map_of TRPC_ERROR_CODES_BY_KEY ''TIMEOUT'' = Some (- 32008) \<and>
   map_of TRPC_ERROR_CODES_BY_KEY ''PRECONDITION_FAILED'' = Some (- 32012) \<and>
   map_of TRPC_ERROR_CODES_BY_KEY ''PAYLOAD_TOO_LARGE'' = Some (- 32013) \<and>
   map_of TRPC_ERROR_CODES_BY_KEY ''CLIENT_CLOSED_REQUEST'' = Some (- 32099) \<and>
   map fst TRPC_ERROR_CODES_BY_KEY =
     [''PARSE_ERROR'', ''BAD_REQUEST'', ''INTERNAL_SERVER_ERROR'', ''UNAUTHORIZED'',
      ''FORBIDDEN'', ''NOT_FOUND'', ''METHOD_NOT_SUPPORTED'', ''TIMEOUT'',
      ''PRECONDITION_FAILED'', ''PAYLOAD_TOO_LARGE'', ''CLIENT_CLOSED_REQUEST''] \<and>
   distinct (map fst TRPC_ERROR_CODES_BY_KEY) \<and>
   length TRPC_ERROR_CODES_BY_KEY = 11 \<and>
   list_all (\<lambda>entry. snd entry < 0) TRPC_ERROR_CODES_BY_KEY"
  by (simp add: TRPC_ERROR_CODES_BY_KEY_def)

subsection \<open>Objects\<close>

lemma get_prop_Fun:
  "get_prop v k = Inr (Fun h) \<Longrightarrow> \<exists>fs. v = Obj fs \<and> map_of fs k = Some (Fun h)"
  by (cases v) (auto split: option.splits)

lemma get_prop_Obj:
  "get_prop v k = Inr (Obj c) \<Longrightarrow> \<exists>fs. v = Obj fs \<and> map_of fs k = Some (Obj c)"
  by (cases v) (auto split: option.splits)

lemma map_of_set_prop: "map_of (set_prop k v fs) = (map_of fs)(k \<mapsto> v)"
  by (simp add: set_prop_def update_conv')

lemma set_prop_same: "map_of fs k = Some v \<Longrightarrow> set_prop k v fs = fs"
  by (simp add: set_prop_def update_triv)

subsection \<open>The chain builder\<close>

lemma procedure_call_throws:
  "procedure_call fns args params = (Inl (Error ''Unimplemented''), [])"
  by (simp add: procedure_call_def pipedResolver_def middlewares_def andThen_def)

text \<open>
  C2. Whatever the arguments (any number of stages followed by a resolver), the chain
  builder \<open>middlewares\<close> that \<open>pipedResolver\<close> returns throws the error with the
  message 'Unimplemented'. It never returns a procedure and calls nothing, so no stage
  and no resolver is run on behalf of a built procedure.
\<close>

theorem middlewares_unimplemented:
  "pipedResolver args = middlewares args \<and>
   fst (middlewares args) = Inl (Error ''Unimplemented'') \<and>
   (\<forall>procedure. fst (middlewares args) \<noteq> Inr procedure) \<and>
   snd (middlewares args) = [] \<and>
   total_executions (snd (procedure_call fns args params)) = 0"
  by (simp add: pipedResolver_def middlewares_def procedure_call_throws
      total_executions_def)

subsection \<open>Validation middleware\<close>

text \<open>
  C3, as the specification states it: when the validator accepts, the forwarded params
  have \<^verbatim>\<open>input\<close> set to the validated value and \<^verbatim>\<open>rawInput\<close> cleared. On the
  params \<^verbatim>\<open>{ctx: {}, rawInput: {hello: 'x'}, next}\<close>, with a validator that accepts
  \<^verbatim>\<open>{hello: 'x'}\<close> and yields it as the validated value, the params given to
  \<^verbatim>\<open>next\<close> still hold \<^verbatim>\<open>rawInput\<close>, and their \<^verbatim>\<open>input\<close> is the validator's
  whole result object, not the validated value.
\<close>

theorem zod_success_counterexample:
  "hello_schema (Obj [(''hello'', Str ''x'')]) =
     Inr (SafeParseSuccess (Obj [(''hello'', Str ''x'')])) \<and>
   zod hello_schema ok_resolver
     (Obj [(''ctx'', Obj []), (''rawInput'', Obj [(''hello'', Str ''x'')]), (''next'', Fun 0)])
   = (Inr (Obj [(''data'', Str ''ok'')]),
      [SafeParseAsync (Obj [(''hello'', Str ''x'')]),
       Apply 0
        (Obj [(''ctx'', Obj []),
              (''rawInput'', Obj [(''hello'', Str ''x'')]),
              (''next'', Fun 0),
              (''input'',
                 Obj [(''success'', Bool True), (''data'', Obj [(''hello'', Str ''x'')])]),
              (''_input_in'', Null),
              (''_input_out'', Null)])]) \<and>
   map_of
     [(''ctx'', Obj []),
      (''rawInput'', Obj [(''hello'', Str ''x'')]),
      (''next'', Fun 0),
      (''input'', Obj [(''success'', Bool True), (''data'', Obj [(''hello'', Str ''x'')])]),
      (''_input_in'', Null),
      (''_input_out'', Null)] ''rawInput'' \<noteq> None \<and>
   map_of
     [(''ctx'', Obj []),
      (''rawInput'', Obj [(''hello'', Str ''x'')]),
      (''next'', Fun 0),
      (''input'', Obj [(''success'', Bool True), (''data'', Obj [(''hello'', Str ''x'')])]),
      (''_input_in'', Null),
      (''_input_out'', Null)] ''input'' \<noteq> Some (Obj [(''hello'', Str ''x'')])"
  by (simp add: zod_def hello_schema_def ok_resolver_def andThen_def settle_def
      SafeParseSuccess_def set_prop_def)

text \<open>
  C3, amended. For every params object that carries a callable \<^verbatim>\<open>next\<close> and whose
  \<^verbatim>\<open>rawInput\<close> the validator accepts, the validation middleware calls the validator
  once and then \<^verbatim>\<open>next\<close> exactly once, and answers what \<^verbatim>\<open>next\<close> answers. The
  params it forwards have an \<^verbatim>\<open>input\<close> field and have \<^verbatim>\<open>_input_in\<close> and
  \<^verbatim>\<open>_input_out\<close> set to null; \<^verbatim>\<open>rawInput\<close> is not cleared but forwarded as it
  came, and every other field of the incoming params is preserved.
\<close>

theorem zod_success_forwards:
  assumes "get_prop params ''rawInput'' = Inr rawInput"
      and "safeParseAsync rawInput = Inr result"
      and "get_prop result ''success'' = Inr success"
      and "truthy success"
      and "get_prop params ''next'' = Inr (Fun h)"
  shows "\<exists>forwarded.
           zod safeParseAsync fns params =
             (fns h (Obj forwarded), [SafeParseAsync rawInput, Apply h (Obj forwarded)]) \<and>
           map_of forwarded ''input'' \<noteq> None \<and>
           map_of forwarded ''_input_in'' = Some Null \<and>
           map_of forwarded ''_input_out'' = Some Null \<and>
           get_prop (Obj forwarded) ''rawInput'' = Inr rawInput \<and>
           (\<forall>k. k \<notin> {''input'', ''_input_in'', ''_input_out''} \<longrightarrow>
                map_of forwarded k = map_of (own_props params) k)"
proof -
  from assms(5) obtain fs where fs: "params = Obj fs" "map_of fs ''next'' = Some (Fun h)"
    using get_prop_Fun by blast
  let ?fwd = "set_prop ''_input_out'' Null
                (set_prop ''_input_in'' Null (set_prop ''input'' result fs))"
  have run: "zod safeParseAsync fns params =
               (fns h (Obj ?fwd), [SafeParseAsync rawInput, Apply h (Obj ?fwd)])"
    using assms fs by (simp add: zod_def andThen_def settle_def)
  have raw: "get_prop (Obj ?fwd) ''rawInput'' = Inr rawInput"
    using assms(1) fs by (simp add: map_of_set_prop)
  have rest: "\<forall>k. k \<notin> {''input'', ''_input_in'', ''_input_out''} \<longrightarrow>
                map_of ?fwd k = map_of (own_props params) k"
    using fs by (simp add: map_of_set_prop)
  show ?thesis
    using run raw rest by (intro exI [of _ ?fwd]) (simp add: map_of_set_prop)
qed

theorem zod_success_forwards_witness:
  "get_prop (Obj [(''ctx'', Obj []), (''rawInput'', Obj [(''hello'', Str ''x'')]),
                  (''next'', Fun 0)]) ''rawInput'' = Inr (Obj [(''hello'', Str ''x'')]) \<and>
   hello_schema (Obj [(''hello'', Str ''x'')]) =
     Inr (SafeParseSuccess (Obj [(''hello'', Str ''x'')])) \<and>
   get_prop (SafeParseSuccess (Obj [(''hello'', Str ''x'')])) ''success'' = Inr (Bool True) \<and>
   truthy (Bool True) \<and>
   get_prop (Obj [(''ctx'', Obj []), (''rawInput'', Obj [(''hello'', Str ''x'')]),
                  (''next'', Fun 0)]) ''next'' = Inr (Fun 0) \<and>
   (\<exists>forwarded.
      zod hello_schema ok_resolver
        (Obj [(''ctx'', Obj []), (''rawInput'', Obj [(''hello'', Str ''x'')]),
              (''next'', Fun 0)]) =
        (ok_resolver 0 (Obj forwarded),
         [SafeParseAsync (Obj [(''hello'', Str ''x'')]), Apply 0 (Obj forwarded)]) \<and>
      map_of forwarded ''input'' \<noteq> None \<and>
      map_of forwarded ''_input_in'' = Some Null \<and>
      map_of forwarded ''_input_out'' = Some Null \<and>
      get_prop (Obj forwarded) ''rawInput'' = Inr (Obj [(''hello'', Str ''x'')]) \<and>
      map_of forwarded ''ctx'' = Some (Obj []))"
proof -
  have h1: "get_prop (Obj [(''ctx'', Obj []), (''rawInput'', Obj [(''hello'', Str ''x'')]),
              (''next'', Fun 0)]) ''rawInput'' = Inr (Obj [(''hello'', Str ''x'')])"
    by simp
  have h2: "hello_schema (Obj [(''hello'', Str ''x'')]) =
              Inr (SafeParseSuccess (Obj [(''hello'', Str ''x'')]))"
    by (simp add: hello_schema_def)
  have h3: "get_prop (SafeParseSuccess (Obj [(''hello'', Str ''x'')])) ''success'' =
              Inr (Bool True)"
    by (simp add: SafeParseSuccess_def)
  have h4: "truthy (Bool True)"
    by simp
  have h5: "get_prop (Obj [(''ctx'', Obj []), (''rawInput'', Obj [(''hello'', Str ''x'')]),
              (''next'', Fun 0)]) ''next'' = Inr (Fun 0)"
    by simp
  from zod_success_forwards [where safeParseAsync = hello_schema and fns = ok_resolver,
      OF h1 h2 h3 h4 h5]
  obtain forwarded where f:
    "zod hello_schema ok_resolver
        (Obj [(''ctx'', Obj []), (''rawInput'', Obj [(''hello'', Str ''x'')]),
              (''next'', Fun 0)]) =
        (ok_resolver 0 (Obj forwarded),
         [SafeParseAsync (Obj [(''hello'', Str ''x'')]), Apply 0 (Obj forwarded)])"
    "map_of forwarded ''input'' \<noteq> None"
    "map_of forwarded ''_input_in'' = Some Null"
    "map_of forwarded ''_input_out'' = Some Null"
    "get_prop (Obj forwarded) ''rawInput'' = Inr (Obj [(''hello'', Str ''x'')])"
    "\<forall>k. k \<notin> {''input'', ''_input_in'', ''_input_out''} \<longrightarrow>
         map_of forwarded k =
         map_of (own_props (Obj [(''ctx'', Obj []),
           (''rawInput'', Obj [(''hello'', Str ''x'')]), (''next'', Fun 0)])) k"
    by blast
  from f(6) have "map_of forwarded ''ctx'' = Some (Obj [])"
    by simp
  with f(1-5) h1 h2 h3 h4 h5 show ?thesis
    by blast
qed

text \<open>
  C4. For every params value whose \<^verbatim>\<open>rawInput\<close> the validator rejects, the validation
  middleware calls the validator exactly once and does not call \<^verbatim>\<open>next\<close>, so nothing
  downstream runs; it returns the failure with the code BAD_REQUEST whose \<^verbatim>\<open>cause\<close>
  is the validator's error, as the validator gave it.
\<close>

theorem zod_failure_bad_request:
  assumes "get_prop params ''rawInput'' = Inr rawInput"
      and "safeParseAsync rawInput = Inr result"
      and "get_prop result ''success'' = Inr success"
      and "\<not> truthy success"
      and "get_prop result ''error'' = Inr cause"
  shows "zod safeParseAsync fns params =
           (Inr (Obj [(''error'', Obj [(''code'', Str ''BAD_REQUEST''), (''cause'', cause)])]),
            [SafeParseAsync rawInput])"
  using assms by (simp add: zod_def andThen_def settle_def)

theorem zod_failure_bad_request_witness:
  "get_prop (Obj [(''ctx'', Obj []), (''rawInput'', Obj []), (''next'', Fun 0)]) ''rawInput'' =
     Inr (Obj []) \<and>
   hello_schema (Obj []) = Inr (SafeParseError (Obj [(''name'', Str ''ZodError'')])) \<and>
   get_prop (SafeParseError (Obj [(''name'', Str ''ZodError'')])) ''success'' =
     Inr (Bool False) \<and>
   \<not> truthy (Bool False) \<and>
   get_prop (SafeParseError (Obj [(''name'', Str ''ZodError'')])) ''error'' =
     Inr (Obj [(''name'', Str ''ZodError'')]) \<and>
   zod hello_schema ok_resolver
     (Obj [(''ctx'', Obj []), (''rawInput'', Obj []), (''next'', Fun 0)]) =
     (Inr (Obj [(''error'',
        Obj [(''code'', Str ''BAD_REQUEST''),
             (''cause'', Obj [(''name'', Str ''ZodError'')])])]),
      [SafeParseAsync (Obj [])])"
proof -
  have h1: "get_prop (Obj [(''ctx'', Obj []), (''rawInput'', Obj []), (''next'', Fun 0)])
              ''rawInput'' = Inr (Obj [])"
    by simp
  have h2: "hello_schema (Obj []) = Inr (SafeParseError (Obj [(''name'', Str ''ZodError'')]))"
    by (simp add: hello_schema_def)
  have h3: "get_prop (SafeParseError (Obj [(''name'', Str ''ZodError'')])) ''success'' =
              Inr (Bool False)"
    by (simp add: SafeParseError_def)
  have h4: "\<not> truthy (Bool False)"
    by simp
  have h5: "get_prop (SafeParseError (Obj [(''name'', Str ''ZodError'')])) ''error'' =
              Inr (Obj [(''name'', Str ''ZodError'')])"
    by (simp add: SafeParseError_def)
  show ?thesis
    using h1 h2 h3 h4 h5 zod_failure_bad_request [where safeParseAsync = hello_schema and fns = ok_resolver,
        OF h1 h2 h3 h4 h5]
    by simp
qed

subsection \<open>Context-swap middleware\<close>

lemma contextSwapper_forward:
  assumes "newContext params = Inr (Obj r)"
      and "map_of r ''ctx'' = Some ctx"
      and "get_prop params ''next'' = Inr (Fun h)"
  shows "contextSwapper newContext fns params =
           (fns h (Obj (set_prop ''ctx'' ctx (own_props params))),
            [NewContext params, Apply h (Obj (set_prop ''ctx'' ctx (own_props params)))])"
  using assms by (simp add: contextSwapper_def andThen_def settle_def)

lemma contextSwapper_return:
  assumes "newContext params = Inr (Obj r)"
      and "map_of r ''ctx'' = None"
  shows "contextSwapper newContext fns params = (Inr (Obj r), [NewContext params])"
  using assms by (simp add: contextSwapper_def andThen_def settle_def)

text \<open>
  C5. For every params value and every derivation function: when the derivation function
  returns an object with a \<^verbatim>\<open>ctx\<close> property, the context-swap middleware calls
  \<^verbatim>\<open>next\<close> exactly once, with params whose \<^verbatim>\<open>ctx\<close> is the derived context and whose
  every other field is the incoming one; when it returns an object without \<^verbatim>\<open>ctx\<close>
  (the \<^verbatim>\<open>error\<close> branch), the middleware returns that object as it is and does not call
  \<^verbatim>\<open>next\<close>.
\<close>

theorem contextSwapper_branches:
  "(newContext params = Inr (Obj r) \<and> map_of r ''ctx'' = Some ctx \<and>
    get_prop params ''next'' = Inr (Fun h) \<longrightarrow>
      (\<exists>forwarded.
         contextSwapper newContext fns params =
           (fns h (Obj forwarded), [NewContext params, Apply h (Obj forwarded)]) \<and>
         map_of forwarded ''ctx'' = Some ctx \<and>
         (\<forall>k. k \<noteq> ''ctx'' \<longrightarrow> map_of forwarded k = map_of (own_props params) k))) \<and>
   (newContext params = Inr (Obj r) \<and> map_of r ''ctx'' = None \<longrightarrow>
      contextSwapper newContext fns params = (Inr (Obj r), [NewContext params]))"
proof (intro conjI impI)
  assume a: "newContext params = Inr (Obj r) \<and> map_of r ''ctx'' = Some ctx \<and>
             get_prop params ''next'' = Inr (Fun h)"
  let ?fwd = "set_prop ''ctx'' ctx (own_props params)"
  have "contextSwapper newContext fns params =
          (fns h (Obj ?fwd), [NewContext params, Apply h (Obj ?fwd)])"
    using a by (simp add: contextSwapper_forward)
  moreover have "map_of ?fwd ''ctx'' = Some ctx"
    by (simp add: map_of_set_prop)
  moreover have "\<forall>k. k \<noteq> ''ctx'' \<longrightarrow> map_of ?fwd k = map_of (own_props params) k"
    by (simp add: map_of_set_prop)
  ultimately show "\<exists>forwarded.
         contextSwapper newContext fns params =
           (fns h (Obj forwarded), [NewContext params, Apply h (Obj forwarded)]) \<and>
         map_of forwarded ''ctx'' = Some ctx \<and>
         (\<forall>k. k \<noteq> ''ctx'' \<longrightarrow> map_of forwarded k = map_of (own_props params) k)"
    by blast
next
  assume "newContext params = Inr (Obj r) \<and> map_of r ''ctx'' = None"
  then show "contextSwapper newContext fns params = (Inr (Obj r), [NewContext params])"
    by (simp add: contextSwapper_return)
qed

theorem contextSwapper_branches_witness:
  "isAuthed_newContext
     (Obj [(''ctx'', Obj [(''user'', Obj [(''id'', Str ''42'')])]), (''rawInput'', Null),
           (''next'', Fun 0)]) =
     Inr (Obj [(''ctx'', Obj [(''user'', Obj [(''id'', Str ''42'')])])]) \<and>
   (\<exists>forwarded.
      contextSwapper isAuthed_newContext ok_resolver
        (Obj [(''ctx'', Obj [(''user'', Obj [(''id'', Str ''42'')])]), (''rawInput'', Null),
              (''next'', Fun 0)]) =
        (ok_resolver 0 (Obj forwarded),
         [NewContext (Obj [(''ctx'', Obj [(''user'', Obj [(''id'', Str ''42'')])]),
                          (''rawInput'', Null), (''next'', Fun 0)]),
          Apply 0 (Obj forwarded)]) \<and>
      map_of forwarded ''ctx'' = Some (Obj [(''user'', Obj [(''id'', Str ''42'')])]) \<and>
      map_of forwarded ''rawInput'' = Some Null \<and>
      map_of forwarded ''next'' = Some (Fun 0)) \<and>
   isAuthed_newContext (Obj [(''ctx'', Obj []), (''next'', Fun 0)]) =
     Inr (Obj [(''error'', Obj [(''code'', Str ''UNAUTHORIZED'')])]) \<and>
   contextSwapper isAuthed_newContext ok_resolver (Obj [(''ctx'', Obj []), (''next'', Fun 0)]) =
     (Inr (Obj [(''error'', Obj [(''code'', Str ''UNAUTHORIZED'')])]),
      [NewContext (Obj [(''ctx'', Obj []), (''next'', Fun 0)])])"
proof -
  let ?p = "Obj [(''ctx'', Obj [(''user'', Obj [(''id'', Str ''42'')])]), (''rawInput'', Null),
                 (''next'', Fun 0)]"
  let ?q = "Obj [(''ctx'', Obj []), (''next'', Fun 0)]"
  have fwd: "isAuthed_newContext ?p =
               Inr (Obj [(''ctx'', Obj [(''user'', Obj [(''id'', Str ''42'')])])]) \<and>
             map_of [(''ctx'', Obj [(''user'', Obj [(''id'', Str ''42'')])])] ''ctx'' =
               Some (Obj [(''user'', Obj [(''id'', Str ''42'')])]) \<and>
             get_prop ?p ''next'' = Inr (Fun 0)"
    by (simp add: isAuthed_newContext_def set_prop_def)
  have ret: "isAuthed_newContext ?q =
               Inr (Obj [(''error'', Obj [(''code'', Str ''UNAUTHORIZED'')])]) \<and>
             map_of [(''error'', Obj [(''code'', Str ''UNAUTHORIZED'')])] ''ctx'' = None"
    by (simp add: isAuthed_newContext_def)
  from fwd contextSwapper_branches [where newContext = isAuthed_newContext and params = ?p
      and fns = ok_resolver and h = 0 and ctx = "Obj [(''user'', Obj [(''id'', Str ''42'')])]"
      and r = "[(''ctx'', Obj [(''user'', Obj [(''id'', Str ''42'')])])]"]
  obtain forwarded where f:
    "contextSwapper isAuthed_newContext ok_resolver ?p =
       (ok_resolver 0 (Obj forwarded), [NewContext ?p, Apply 0 (Obj forwarded)])"
    "map_of forwarded ''ctx'' = Some (Obj [(''user'', Obj [(''id'', Str ''42'')])])"
    "\<forall>k. k \<noteq> ''ctx'' \<longrightarrow> map_of forwarded k = map_of (own_props ?p) k"
    by blast
  from f(3) have "map_of forwarded ''rawInput'' = Some Null"
    and "map_of forwarded ''next'' = Some (Fun 0)"
    by simp_all
  moreover from ret contextSwapper_branches [where newContext = isAuthed_newContext
      and params = ?q and fns = ok_resolver
      and r = "[(''error'', Obj [(''code'', Str ''UNAUTHORIZED'')])]"]
  have "contextSwapper isAuthed_newContext ok_resolver ?q =
     (Inr (Obj [(''error'', Obj [(''code'', Str ''UNAUTHORIZED'')])]), [NewContext ?q])"
    by blast
  ultimately show ?thesis
    using f(1,2) fwd ret by blast
qed

subsection \<open>Auth middleware\<close>

text \<open>
  C6. When the incoming \<^verbatim>\<open>ctx\<close> has no \<^verbatim>\<open>user\<close>, the auth middleware returns the
  failure with the code UNAUTHORIZED and calls nothing downstream. When the incoming
  \<^verbatim>\<open>ctx\<close> has a user (such as \<^verbatim>\<open>{id: '42'}\<close>), it calls \<^verbatim>\<open>next\<close> once, and the
  params it forwards are the incoming ones: the same user, and every other field of the
  context and of the params as it came.
\<close>

theorem isAuthed_gate:
  "(get_prop params ''ctx'' = Inr (Obj c) \<and> map_of c ''user'' = None \<longrightarrow>
      isAuthed fns params =
        (Inr (Obj [(''error'', Obj [(''code'', Str ''UNAUTHORIZED'')])]),
         [NewContext params])) \<and>
   (get_prop params ''ctx'' = Inr (Obj c) \<and> map_of c ''user'' = Some user \<and> truthy user \<and>
    get_prop params ''next'' = Inr (Fun h) \<longrightarrow>
      isAuthed fns params = (fns h params, [NewContext params, Apply h params]))"
proof (intro conjI impI)
  assume a: "get_prop params ''ctx'' = Inr (Obj c) \<and> map_of c ''user'' = None"
  then have d: "isAuthed_newContext params =
                  Inr (Obj [(''error'', Obj [(''code'', Str ''UNAUTHORIZED'')])])"
    by (simp add: isAuthed_newContext_def)
  show "isAuthed fns params =
        (Inr (Obj [(''error'', Obj [(''code'', Str ''UNAUTHORIZED'')])]),
         [NewContext params])"
    unfolding isAuthed_def
    by (rule contextSwapper_return [where newContext = isAuthed_newContext, OF d]) simp
next
  assume a: "get_prop params ''ctx'' = Inr (Obj c) \<and> map_of c ''user'' = Some user \<and>
    truthy user \<and> get_prop params ''next'' = Inr (Fun h)"
  then obtain fs where fs: "params = Obj fs" "map_of fs ''ctx'' = Some (Obj c)"
    using get_prop_Obj by blast
  from a have d: "isAuthed_newContext params = Inr (Obj [(''ctx'', Obj c)])"
    by (simp add: isAuthed_newContext_def set_prop_same)
  have n: "get_prop params ''next'' = Inr (Fun h)"
    using a by simp
  have "isAuthed fns params =
          (fns h (Obj (set_prop ''ctx'' (Obj c) (own_props params))),
           [NewContext params, Apply h (Obj (set_prop ''ctx'' (Obj c) (own_props params)))])"
    unfolding isAuthed_def
    by (rule contextSwapper_forward [where newContext = isAuthed_newContext, OF d _ n]) simp
  then show "isAuthed fns params = (fns h params, [NewContext params, Apply h params])"
    using fs by (simp add: set_prop_same)
qed

theorem isAuthed_gate_witness:
  "get_prop (Obj [(''ctx'', Obj []), (''next'', Fun 0)]) ''ctx'' = Inr (Obj []) \<and>
   map_of ([] :: (string \<times> jsval) list) ''user'' = None \<and>
   isAuthed ok_resolver (Obj [(''ctx'', Obj []), (''next'', Fun 0)]) =
     (Inr (Obj [(''error'', Obj [(''code'', Str ''UNAUTHORIZED'')])]),
      [NewContext (Obj [(''ctx'', Obj []), (''next'', Fun 0)])]) \<and>
   get_prop
     (Obj [(''ctx'', Obj [(''user'', Obj [(''id'', Str ''42'')]), (''locale'', Str ''en'')]),
           (''next'', Fun 0)]) ''ctx'' =
     Inr (Obj [(''user'', Obj [(''id'', Str ''42'')]), (''locale'', Str ''en'')]) \<and>
   map_of [(''user'', Obj [(''id'', Str ''42'')]), (''locale'', Str ''en'')] ''user'' =
     Some (Obj [(''id'', Str ''42'')]) \<and>
   truthy (Obj [(''id'', Str ''42'')]) \<and>
   get_prop
     (Obj [(''ctx'', Obj [(''user'', Obj [(''id'', Str ''42'')]), (''locale'', Str ''en'')]),
           (''next'', Fun 0)]) ''next'' = Inr (Fun 0) \<and>
   isAuthed ok_resolver
     (Obj [(''ctx'', Obj [(''user'', Obj [(''id'', Str ''42'')]), (''locale'', Str ''en'')]),
           (''next'', Fun 0)]) =
     (ok_resolver 0
        (Obj [(''ctx'', Obj [(''user'', Obj [(''id'', Str ''42'')]), (''locale'', Str ''en'')]),
              (''next'', Fun 0)]),
      [NewContext
         (Obj [(''ctx'', Obj [(''user'', Obj [(''id'', Str ''42'')]), (''locale'', Str ''en'')]),
               (''next'', Fun 0)]),
       Apply 0
         (Obj [(''ctx'', Obj [(''user'', Obj [(''id'', Str ''42'')]), (''locale'', Str ''en'')]),
               (''next'', Fun 0)])])"
  using isAuthed_gate [of "Obj [(''ctx'', Obj []), (''next'', Fun 0)]" "[]" ok_resolver]
    isAuthed_gate [of
      "Obj [(''ctx'', Obj [(''user'', Obj [(''id'', Str ''42'')]), (''locale'', Str ''en'')]),
            (''next'', Fun 0)]"
      "[(''user'', Obj [(''id'', Str ''42'')]), (''locale'', Str ''en'')]"
      ok_resolver "Obj [(''id'', Str ''42'')]" 0]
  by simp

subsection \<open>Faults of the collaborators\<close>

text \<open>
  C7, as the specification states it: a fault raised by the validator or by the
  derivation function is caught by the owning middleware and turned into a failure, and
  the caller of a procedure never sees a fault. With a derivation function that throws,
  the context-swap middleware ends in that fault; with a validator that throws, so does
  the validation middleware; and building and calling a procedure ends in the fault
  'Unimplemented'.
\<close>

theorem faults_counterexample:
  "contextSwapper throwing_newContext ok_resolver (Obj [(''ctx'', Obj []), (''next'', Fun 0)]) =
     (Inl (Error ''no database''),
      [NewContext (Obj [(''ctx'', Obj []), (''next'', Fun 0)])]) \<and>
   zod throwing_schema ok_resolver (Obj [(''ctx'', Obj []), (''next'', Fun 0)]) =
     (Inl (Error ''validator crashed''), [SafeParseAsync Undefined]) \<and>
   procedure_call ok_resolver [Fun 1, Fun 2] (Obj [(''ctx'', Obj [])]) =
     (Inl (Error ''Unimplemented''), [])"
  by (simp add: contextSwapper_def throwing_newContext_def zod_def throwing_schema_def
      andThen_def settle_def procedure_call_throws)

text \<open>
  C7, amended. Neither middleware catches a fault of its collaborator: when the
  derivation function raises a fault, the context-swap middleware ends in that same
  fault, and when the validator raises a fault, the validation middleware ends in that
  same fault; in both cases \<^verbatim>\<open>next\<close> is not called. The chain builder throws the error
  'Unimplemented' for every argument list, so its caller receives that fault and no
  procedure.
\<close>

theorem faults_escape:
  "(newContext params = Inl e \<longrightarrow>
      contextSwapper newContext fns params = (Inl e, [NewContext params])) \<and>
   (get_prop params ''rawInput'' = Inr rawInput \<and> safeParseAsync rawInput = Inl e \<longrightarrow>
      zod safeParseAsync fns params = (Inl e, [SafeParseAsync rawInput])) \<and>
   fst (pipedResolver args) = Inl (Error ''Unimplemented'')"
  by (simp add: contextSwapper_def zod_def andThen_def settle_def pipedResolver_def
      middlewares_def)

theorem faults_escape_witness:
  "throwing_newContext (Obj [(''ctx'', Obj []), (''next'', Fun 0)]) =
     Inl (Error ''no database'') \<and>
   contextSwapper throwing_newContext ok_resolver (Obj [(''ctx'', Obj []), (''next'', Fun 0)]) =
     (Inl (Error ''no database''),
      [NewContext (Obj [(''ctx'', Obj []), (''next'', Fun 0)])]) \<and>
   get_prop (Obj [(''rawInput'', Str ''x''), (''next'', Fun 0)]) ''rawInput'' =
     Inr (Str ''x'') \<and>
   throwing_schema (Str ''x'') = Inl (Error ''validator crashed'') \<and>
   zod throwing_schema ok_resolver (Obj [(''rawInput'', Str ''x''), (''next'', Fun 0)]) =
     (Inl (Error ''validator crashed''), [SafeParseAsync (Str ''x'')])"
  using faults_escape [of throwing_newContext "Obj [(''ctx'', Obj []), (''next'', Fun 0)]"
      "Error ''no database''" ok_resolver]
    faults_escape [where safeParseAsync = throwing_schema
      and params = "Obj [(''rawInput'', Str ''x''), (''next'', Fun 0)]"
      and rawInput = "Str ''x''" and e = "Error ''validator crashed''" and fns = ok_resolver]
  by (simp add: throwing_newContext_def throwing_schema_def)

end
